theory Spec2Isabelle
  imports Complex_Main "HOL-Library.Multiset" "HOL-Library.AList"
begin

section \<open>Tables\<close>

text \<open>
  The program of \<^verbatim>\<open>src/tutorial/deidentify.py\<close> threads one pandas DataFrame through a
  fixed list of stages. A cell is a string, a number or the missing value; numbers are
  exact rationals (the rounding of binary floating point is not modelled). A frame is
  its ordered column labels and its rows, a row being the list of its labelled cells.
  Labels are distinct, as \<^verbatim>\<open>read_csv\<close> makes them.
\<close>

datatype val = Str string | Num rat | NaN

text \<open>
  The exceptions. \<open>KeyError\<close>, \<open>TypeError\<close>, \<open>ValueError\<close> and \<open>MergeError\<close> are raised by
  pandas, \<open>NameError\<close> by the interpreter. \<open>SchemaError\<close> is the name the specification
  uses; no statement of the source raises it.
\<close>

datatype pyerror =
    KeyError string
  | TypeError string
  | ValueError string
  | MergeError string
  | NameError string
  | SchemaError string

type_synonym row = "(string \<times> val) list"

record dataframe =
  columns :: "string list"
  rows :: "row list"

definition cell :: "row \<Rightarrow> string \<Rightarrow> val" where
  "cell r c = (case map_of r c of Some v \<Rightarrow> v | None \<Rightarrow> NaN)"

text \<open>\<^verbatim>\<open>df[c]\<close>: the column as a series, or \<open>KeyError\<close>.\<close>

definition getitem :: "dataframe \<Rightarrow> string \<Rightarrow> pyerror + val list" where
  "getitem df c =
     (if c \<in> set (columns df) then Inr (map (\<lambda>r. cell r c) (rows df))
      else Inl (KeyError c))"

text \<open>\<^verbatim>\<open>df[c] = series\<close>: overwrites the column, or appends it as the last one.\<close>

definition setitem :: "dataframe \<Rightarrow> string \<Rightarrow> val list \<Rightarrow> dataframe" where
  "setitem df c vs =
     \<lparr>columns = (if c \<in> set (columns df) then columns df else columns df @ [c]),
      rows = map (\<lambda>(r, v). AList.update c v r) (zip (rows df) vs)\<rparr>"

text \<open>\<^verbatim>\<open>df.drop(c, 1)\<close>: drops the column (axis 1), or \<open>KeyError\<close>.\<close>

definition drop_column :: "dataframe \<Rightarrow> string \<Rightarrow> pyerror + dataframe" where
  "drop_column df c =
     (if c \<in> set (columns df)
      then Inr \<lparr>columns = removeAll c (columns df),
                rows = map (AList.delete c) (rows df)\<rparr>
      else Inl (KeyError c))"

text \<open>\<^verbatim>\<open>series.isin(values)\<close> and \<^verbatim>\<open>df[mask]\<close>.\<close>

definition isin :: "val list \<Rightarrow> val list \<Rightarrow> bool list" where
  "isin s vals = map (\<lambda>v. v \<in> set vals) s"

definition getitem_mask :: "dataframe \<Rightarrow> bool list \<Rightarrow> dataframe" where
  "getitem_mask df m =
     \<lparr>columns = columns df, rows = map fst (filter snd (zip (rows df) m))\<rparr>"


section \<open>Binning\<close>

text \<open>
  \<^verbatim>\<open>pd.cut(x, bins, labels, include_lowest=True)\<close> with a list of edges and the default
  \<^verbatim>\<open>right=True\<close>. A series holding a string is refused. The edges must not decrease and
  must be unique. The bin of a value is the number of edges strictly below it
  (\<^verbatim>\<open>searchsorted(side="left")\<close>), so every bin is closed on the right; a value equal to
  the first edge goes to bin 1. Bin 0 and bin \<open>length bins\<close> are out of range and give
  the missing value.
\<close>

fun to_numeric :: "val list \<Rightarrow> pyerror + rat option list" where
  "to_numeric [] = Inr []"
| "to_numeric (Str s # vs) = Inl (TypeError s)"
| "to_numeric (Num x # vs) =
     (case to_numeric vs of Inl e \<Rightarrow> Inl e | Inr ns \<Rightarrow> Inr (Some x # ns))"
| "to_numeric (NaN # vs) =
     (case to_numeric vs of Inl e \<Rightarrow> Inl e | Inr ns \<Rightarrow> Inr (None # ns))"

definition searchsorted_left :: "rat list \<Rightarrow> rat \<Rightarrow> nat" where
  "searchsorted_left bins x = length (filter (\<lambda>b. b < x) bins)"

definition bin_id :: "rat list \<Rightarrow> rat option \<Rightarrow> nat option" where
  "bin_id bins x =
     (case x of
        None \<Rightarrow> None
      | Some v \<Rightarrow>
          (case bins of
             [] \<Rightarrow> None
           | b0 # bs \<Rightarrow>
               (let i = (if v = b0 then 1 else searchsorted_left bins v)
                in if i = 0 \<or> i = length bins then None else Some i)))"

definition bins_to_cuts :: "rat option list \<Rightarrow> rat list \<Rightarrow> pyerror + nat option list" where
  "bins_to_cuts xs bins =
     (if \<not> distinct bins \<and> length bins \<noteq> 2
      then Inl (ValueError ''Bin edges must be unique'')
      else Inr (map (bin_id bins) xs))"

definition cut :: "val list \<Rightarrow> rat list \<Rightarrow> string list option \<Rightarrow> pyerror + val list" where
  "cut x bins labels =
     (case to_numeric x of
        Inl e \<Rightarrow> Inl e
      | Inr xs \<Rightarrow>
          if \<not> sorted bins then Inl (ValueError ''bins must increase monotonically.'')
          else
            (case bins_to_cuts xs bins of
               Inl e \<Rightarrow> Inl e
             | Inr ids \<Rightarrow>
                 (case labels of
                    None \<Rightarrow>
                      Inr (map (\<lambda>i. case i of None \<Rightarrow> NaN
                                  | Some k \<Rightarrow> Num (of_nat (k - 1))) ids)
                  | Some ls \<Rightarrow>
                      if length ls \<noteq> length bins - 1
                      then Inl (ValueError
                        ''Bin labels must be one fewer than the number of bin edges'')
                      else Inr (map (\<lambda>i. case i of None \<Rightarrow> NaN
                                      | Some k \<Rightarrow> Str (ls ! (k - 1))) ids))))"

section \<open>The stages\<close>

definition remove_non_male_or_female :: "dataframe \<Rightarrow> pyerror + dataframe" where
  "remove_non_male_or_female nhs_df =
     (case getitem nhs_df ''Gender'' of
        Inl e \<Rightarrow> Inl e
      | Inr gender \<Rightarrow>
          Inr (getitem_mask nhs_df (isin gender [Str ''Male'', Str ''Female''])))"

definition age_bins :: "rat list" where
  "age_bins = [0, 18, 25, 45, 65, 85, 150]"

definition age_labels :: "string list" where
  "age_labels = [''0-17'', ''18-24'', ''25-44'', ''45-64'', ''65-84'', ''85-'']"

definition add_age_brackets :: "dataframe \<Rightarrow> pyerror + dataframe" where
  "add_age_brackets nhs_df =
     (case getitem nhs_df ''Age'' of
        Inl e \<Rightarrow> Inl e
      | Inr age \<Rightarrow>
          (case cut age age_bins (Some age_labels) of
             Inl e \<Rightarrow> Inl e
           | Inr bracket \<Rightarrow> drop_column (setitem nhs_df ''Age bracket'' bracket) ''Age''))"


definition remove_nhs_numbers :: "dataframe \<Rightarrow> pyerror + dataframe" where
  "remove_nhs_numbers nhs_ae_df = drop_column nhs_ae_df ''NHS number''"

subsection \<open>Joins against the reference table\<close>

text \<open>\<^verbatim>\<open>df[[c1, ..., cn]]\<close>: the frame of the listed columns, or \<open>KeyError\<close>.\<close>

definition getitem_list :: "dataframe \<Rightarrow> string list \<Rightarrow> pyerror + dataframe" where
  "getitem_list df cs =
     (case filter (\<lambda>c. c \<notin> set (columns df)) cs of
        [] \<Rightarrow> Inr \<lparr>columns = cs,
                    rows = map (\<lambda>r. map (\<lambda>c. (c, cell r c)) cs) (rows df)\<rparr>
      | c # _ \<Rightarrow> Inl (KeyError c))"

text \<open>\<^verbatim>\<open>df.drop_duplicates()\<close>: of rows equal in every column, the first is kept.\<close>

fun drop_dups_by :: "('a \<Rightarrow> 'b) \<Rightarrow> 'b list \<Rightarrow> 'a list \<Rightarrow> 'a list" where
  "drop_dups_by k seen [] = []"
| "drop_dups_by k seen (x # xs) =
     (if k x \<in> set seen then drop_dups_by k seen xs
      else x # drop_dups_by k (k x # seen) xs)"

definition drop_duplicates :: "dataframe \<Rightarrow> dataframe" where
  "drop_duplicates df =
     \<lparr>columns = columns df,
      rows = drop_dups_by (\<lambda>r. map (cell r) (columns df)) [] (rows df)\<rparr>"

text \<open>
  \<^verbatim>\<open>pd.merge(left, right, on=key)\<close>: the inner join on one key column. A label other
  than the key that both frames carry gets the suffixes \<^verbatim>\<open>_x\<close> and \<^verbatim>\<open>_y\<close>; a join whose
  labels would then repeat is reported as \<open>MergeError\<close>, since a frame here keeps its
  labels distinct. The result lists the keys in the order the left frame first shows
  them and, under each key, every left row with every right row of that key; a joined
  row holds the cells of the left frame's columns, then those of the right frame's
  other columns. Missing keys match each other, as in pandas.
\<close>

definition first_seen :: "'a list \<Rightarrow> 'a list" where
  "first_seen xs = rev (remdups (rev xs))"

definition join_row ::
  "string list \<Rightarrow> string list \<Rightarrow> (string \<Rightarrow> string) \<Rightarrow> (string \<Rightarrow> string) \<Rightarrow> row \<Rightarrow> row \<Rightarrow> row" where
  "join_row lcols rcols lname rname l r =
     map (\<lambda>c. (lname c, cell l c)) lcols @ map (\<lambda>c. (rname c, cell r c)) rcols"

definition merge_rows :: "string \<Rightarrow> (row \<Rightarrow> row \<Rightarrow> row) \<Rightarrow> row list \<Rightarrow> row list \<Rightarrow> row list" where
  "merge_rows on j ls rs =
     concat (map (\<lambda>k.
        concat (map (\<lambda>l. map (j l) (filter (\<lambda>r. cell r on = k) rs))
                    (filter (\<lambda>l. cell l on = k) ls)))
        (first_seen (map (\<lambda>l. cell l on) ls)))"

definition merge :: "dataframe \<Rightarrow> dataframe \<Rightarrow> string \<Rightarrow> pyerror + dataframe" where
  "merge left right on =
     (if on \<notin> set (columns right) then Inl (KeyError on)
      else if on \<notin> set (columns left) then Inl (KeyError on)
      else
        (let overlap = filter (\<lambda>c. c \<noteq> on \<and> c \<in> set (columns right)) (columns left);
             lname = (\<lambda>c. if c \<in> set overlap then c @ ''_x'' else c);
             rname = (\<lambda>c. if c \<in> set overlap then c @ ''_y'' else c);
             rcols = filter (\<lambda>c. c \<noteq> on) (columns right);
             cols = map lname (columns left) @ map rname rcols
         in if \<not> distinct cols then Inl (MergeError on)
            else Inr \<lparr>columns = cols,
                      rows = merge_rows on (join_row (columns left) rcols lname rname)
                               (rows left) (rows right)\<rparr>))"

definition convert_postcodes_to_lsoa :: "dataframe \<Rightarrow> dataframe \<Rightarrow> pyerror + dataframe" where
  "convert_postcodes_to_lsoa postcodes_df nhs_ae_df =
     (case getitem_list postcodes_df [''Postcode'', ''Lower layer super output area''] of
        Inl e \<Rightarrow> Inl e
      | Inr sel \<Rightarrow>
          (case merge nhs_ae_df sel ''Postcode'' of
             Inl e \<Rightarrow> Inl e
           | Inr merged \<Rightarrow> drop_column merged ''Postcode''))"

subsection \<open>Deprivation deciles\<close>

text \<open>
  \<^verbatim>\<open>pd.qcut(x, q, retbins=True, labels=False)\<close>, of which the stage keeps the edges only.
  The edges are the quantiles \<open>k / q\<close> of the values present, by linear interpolation
  between the two neighbours in sorted order; they go through the same uniqueness
  check as in \<open>cut\<close>. With \<open>n\<close> values, \<open>k * (n - 1) div q \<le> n - 1\<close>, and the next index
  is only read when the remainder is not zero, so both reads are in range.
\<close>

definition quantile :: "rat list \<Rightarrow> nat \<Rightarrow> nat \<Rightarrow> rat" where
  "quantile s k q =
     (let p = k * (length s - 1); i = p div q; f = p mod q
      in if f = 0 then s ! i
         else s ! i + (s ! (i + 1) - s ! i) * (of_nat f / of_nat q))"

definition qcut_bins :: "val list \<Rightarrow> nat \<Rightarrow> pyerror + rat list" where
  "qcut_bins x q =
     (case to_numeric x of
        Inl e \<Rightarrow> Inl e
      | Inr xs \<Rightarrow>
          (let s = sort (List.map_filter (\<lambda>v. v) xs)
           in if s = [] then Inl (ValueError ''Bin edges must be unique'')
              else
                (let bins = map (\<lambda>k. quantile s k q) [0..<q + 1]
                 in case bins_to_cuts xs bins of
                      Inl e \<Rightarrow> Inl e
                    | Inr ids \<Rightarrow> Inr bins)))"

definition plus_one :: "val \<Rightarrow> val" where
  "plus_one v = (case v of Num x \<Rightarrow> Num (x + 1) | _ \<Rightarrow> NaN)"

definition convert_lsoa_to_imd_decile :: "dataframe \<Rightarrow> dataframe \<Rightarrow> pyerror + dataframe" where
  "convert_lsoa_to_imd_decile postcodes_df nhs_ae_df =
     (case getitem_list postcodes_df
             [''Lower layer super output area'', ''Index of Multiple Deprivation''] of
        Inl e \<Rightarrow> Inl e
      | Inr sel \<Rightarrow>
      (case merge nhs_ae_df (drop_duplicates sel) ''Lower layer super output area'' of
        Inl e \<Rightarrow> Inl e
      | Inr merged \<Rightarrow>
      (case getitem postcodes_df ''Index of Multiple Deprivation'' of
        Inl e \<Rightarrow> Inl e
      | Inr imd \<Rightarrow>
      (case qcut_bins imd 10 of
        Inl e \<Rightarrow> Inl e
      | Inr bins \<Rightarrow>
      (case getitem merged ''Index of Multiple Deprivation'' of
        Inl e \<Rightarrow> Inl e
      | Inr x \<Rightarrow>
      (case cut x bins None of
        Inl e \<Rightarrow> Inl e
      | Inr codes \<Rightarrow>
      (case drop_column
              (setitem merged ''Index of Multiple Deprivation Decile'' (map plus_one codes))
              ''Index of Multiple Deprivation'' of
        Inl e \<Rightarrow> Inl e
      | Inr dropped \<Rightarrow> drop_column dropped ''Lower layer super output area'')))))))"

subsection \<open>Hospital identifiers\<close>

text \<open>
  \<open>shuffle\<close> stands for the order in which \<^verbatim>\<open>list(set(...))\<close> lists the distinct names
  followed by \<^verbatim>\<open>random.shuffle\<close>: the stage is given it, and the properties ask that it
  permutes its argument. The dictionary is built from the pairs in order, a later pair
  for a name replacing an earlier one; \<^verbatim>\<open>Series.map\<close> gives the missing value where the
  dictionary has no entry.
\<close>

definition hospitals_map :: "val list \<Rightarrow> val \<rightharpoonup> nat" where
  "hospitals_map hospitals = map_of (rev (zip hospitals [1..<length hospitals + 1]))"

definition series_map :: "val list \<Rightarrow> (val \<rightharpoonup> nat) \<Rightarrow> val list" where
  "series_map s m = map (\<lambda>v. case m v of None \<Rightarrow> NaN | Some i \<Rightarrow> Num (of_nat i)) s"

definition replace_hospital_with_random_number ::
  "(val list \<Rightarrow> val list) \<Rightarrow> dataframe \<Rightarrow> pyerror + dataframe" where
  "replace_hospital_with_random_number shuffle nhs_ae_df =
     (case getitem nhs_ae_df ''Hospital'' of
        Inl e \<Rightarrow> Inl e
      | Inr col \<Rightarrow>
          (let hospitals = shuffle (remdups col)
           in drop_column
                (setitem nhs_ae_df ''Hospital ID'' (series_map col (hospitals_map hospitals)))
                ''Hospital''))"

subsection \<open>Arrival time\<close>

text \<open>
  \<^verbatim>\<open>pd.to_datetime\<close> is modelled on the one format the data set is written in,
  \<^verbatim>\<open>YYYY-MM-DD HH:MM:SS\<close>, inside the years a pandas timestamp can hold; any other cell
  that is not missing is reported as \<open>ValueError\<close>. A missing cell stays missing. The
  result is the pair of \<^verbatim>\<open>strftime('%Y-%m-%d')\<close> and \<^verbatim>\<open>hour\<close>.
\<close>

definition number :: "string \<Rightarrow> nat option" where
  "number s =
     (if s \<noteq> [] \<and> list_all (\<lambda>c. c \<in> set ''0123456789'') s
      then Some (foldl (\<lambda>n c. 10 * n + (of_char c - 48)) 0 s)
      else None)"

definition days_in_month :: "nat \<Rightarrow> nat \<Rightarrow> nat" where
  "days_in_month y m =
     (if m = 2 then (if y mod 4 = 0 \<and> (y mod 100 \<noteq> 0 \<or> y mod 400 = 0) then 29 else 28)
      else if m \<in> {4, 6, 9, 11} then 30 else 31)"

definition parse_timestamp :: "string \<Rightarrow> (string \<times> nat) option" where
  "parse_timestamp s =
     (if length s = 19 \<and> s ! 4 = CHR ''-'' \<and> s ! 7 = CHR ''-'' \<and> s ! 10 = CHR '' ''
         \<and> s ! 13 = CHR '':'' \<and> s ! 16 = CHR '':''
      then
        (case (number (take 4 s), number (take 2 (drop 5 s)), number (take 2 (drop 8 s)),
               number (take 2 (drop 11 s)), number (take 2 (drop 14 s)),
               number (take 2 (drop 17 s))) of
           (Some y, Some m, Some d, Some h, Some mi, Some se) \<Rightarrow>
             if 1678 \<le> y \<and> y \<le> 2261 \<and> 1 \<le> m \<and> m \<le> 12 \<and> 1 \<le> d \<and> d \<le> days_in_month y m
                \<and> h < 24 \<and> mi < 60 \<and> se < 60
             then Some (take 10 s, h) else None
         | _ \<Rightarrow> None)
      else None)"

fun to_datetime :: "val list \<Rightarrow> pyerror + (val \<times> val) list" where
  "to_datetime [] = Inr []"
| "to_datetime (v # vs) =
     (case (case v of
              NaN \<Rightarrow> Inr (NaN, NaN)
            | Num x \<Rightarrow> Inl (ValueError ''Arrival Time'')
            | Str s \<Rightarrow>
                (case parse_timestamp s of
                   None \<Rightarrow> Inl (ValueError s)
                 | Some (d, h) \<Rightarrow> Inr (Str d, Num (of_nat h)))) of
        Inl e \<Rightarrow> Inl e
      | Inr t \<Rightarrow> (case to_datetime vs of Inl e \<Rightarrow> Inl e | Inr ts \<Rightarrow> Inr (t # ts)))"

definition hour_bins :: "rat list" where
  "hour_bins = [0, 4, 8, 12, 16, 20, 24]"

definition hour_labels :: "string list" where
  "hour_labels = [''00-03'', ''04-07'', ''08-11'', ''12-15'', ''16-19'', ''20-23'']"

text \<open>
  The body of \<^verbatim>\<open>put_time_in_4_hour_bins\<close> up to its last statement: the value of the local
  \<^verbatim>\<open>nhs_ae_df\<close> when the \<^verbatim>\<open>return\<close> is reached.
\<close>

definition put_time_in_4_hour_bins_body :: "dataframe \<Rightarrow> pyerror + dataframe" where
  "put_time_in_4_hour_bins_body nhs_ae_df =
     (case getitem nhs_ae_df ''Arrival Time'' of
        Inl e \<Rightarrow> Inl e
      | Inr col \<Rightarrow>
      (case to_datetime col of
        Inl e \<Rightarrow> Inl e
      | Inr arrival_times \<Rightarrow>
      (let df1 = setitem nhs_ae_df ''Arrival Date'' (map fst arrival_times);
           df2 = setitem df1 ''Arrival Hour'' (map snd arrival_times)
       in
      (case getitem df2 ''Arrival Hour'' of
        Inl e \<Rightarrow> Inl e
      | Inr hours \<Rightarrow>
      (case cut hours hour_bins (Some hour_labels) of
        Inl e \<Rightarrow> Inl e
      | Inr ranges \<Rightarrow>
      (case drop_column (setitem df2 ''Arrival hour range'' ranges) ''Arrival Time'' of
        Inl e \<Rightarrow> Inl e
      | Inr dropped \<Rightarrow> drop_column dropped ''Arrival Hour''))))))"

text \<open>
  The last statement is \<^verbatim>\<open>return nhs_df\<close>. The function has no local of that name and the
  module no global, so reaching it raises \<open>NameError\<close>: the stage never returns a frame.
\<close>

definition put_time_in_4_hour_bins :: "dataframe \<Rightarrow> pyerror + dataframe" where
  "put_time_in_4_hour_bins nhs_ae_df =
     (case put_time_in_4_hour_bins_body nhs_ae_df of
        Inl e \<Rightarrow> Inl e
      | Inr built \<Rightarrow> Inl (NameError ''nhs_df''))"

subsection \<open>The pipeline\<close>

text \<open>
  \<^verbatim>\<open>main\<close>, given the two files' contents and the shuffle. The result is the frame
  \<^verbatim>\<open>to_csv\<close> wrote, if any, and the exception the run ends with: after writing, \<^verbatim>\<open>main\<close>
  reads \<^verbatim>\<open>time\<close>, which the module never imports.
\<close>

definition main ::
  "dataframe \<Rightarrow> dataframe \<Rightarrow> (val list \<Rightarrow> val list) \<Rightarrow> dataframe option \<times> pyerror" where
  "main nhs_ae_data postcodes_london shuffle =
     (case remove_nhs_numbers nhs_ae_data of
        Inl e \<Rightarrow> (None, e)
      | Inr df1 \<Rightarrow>
      (case convert_postcodes_to_lsoa postcodes_london df1 of
        Inl e \<Rightarrow> (None, e)
      | Inr df2 \<Rightarrow>
      (case convert_lsoa_to_imd_decile postcodes_london df2 of
        Inl e \<Rightarrow> (None, e)
      | Inr df3 \<Rightarrow>
      (case replace_hospital_with_random_number shuffle df3 of
        Inl e \<Rightarrow> (None, e)
      | Inr df4 \<Rightarrow>
      (case put_time_in_4_hour_bins df4 of
        Inl e \<Rightarrow> (None, e)
      | Inr df5 \<Rightarrow>
      (case remove_non_male_or_female df5 of
        Inl e \<Rightarrow> (None, e)
      | Inr df6 \<Rightarrow>
      (case add_age_brackets df6 of
        Inl e \<Rightarrow> (None, e)
      | Inr df7 \<Rightarrow> (Some df7, NameError ''time''))))))))"

section \<open>Example tables\<close>

definition gender_example :: dataframe where
  "gender_example =
     \<lparr>columns = [''Gender'', ''Age''],
      rows = [[(''Gender'', Str ''Male''), (''Age'', Num 10)],
              [(''Gender'', Str ''Other''), (''Age'', Num 30)],
              [(''Gender'', NaN), (''Age'', Num 31)],
              [(''Gender'', Str ''Female''), (''Age'', Num 90)],
              [(''Gender'', Str []), (''Age'', Num 50)]]\<rparr>"

section \<open>Notions used in the statements\<close>

definition numval :: "val \<Rightarrow> rat option" where
  "numval v = (case v of Num x \<Rightarrow> Some x | _ \<Rightarrow> None)"

text \<open>A column is numeric when no cell of it is a string.\<close>

definition numeric_column :: "dataframe \<Rightarrow> string \<Rightarrow> bool" where
  "numeric_column df c =
     list_all (\<lambda>r. case cell r c of Str s \<Rightarrow> False | _ \<Rightarrow> True) (rows df)"

definition age_bracket :: "val \<Rightarrow> val" where
  "age_bracket v =
     (case bin_id age_bins (numval v) of
        None \<Rightarrow> NaN
      | Some k \<Rightarrow> Str (age_labels ! (k - 1)))"

definition age_example :: dataframe where
  "age_example =
     \<lparr>columns = [''Age'', ''Gender''],
      rows = [[(''Age'', Num 0), (''Gender'', Str ''Male'')],
              [(''Age'', Num 151), (''Gender'', Str ''Female'')],
              [(''Age'', Num 150), (''Gender'', Str ''Male'')],
              [(''Age'', Num 17), (''Gender'', Str ''Male'')],
              [(''Age'', Num (-1)), (''Gender'', Str ''Male'')]]\<rparr>"

definition age_inside_example :: dataframe where
  "age_inside_example =
     \<lparr>columns = [''Age''],
      rows = [[(''Age'', Num 0)], [(''Age'', Num 10)], [(''Age'', Num 19)],
              [(''Age'', Num 30)], [(''Age'', Num 50)], [(''Age'', Num 70)],
              [(''Age'', Num 90)], [(''Age'', Num 150)]]\<rparr>"

definition age_edge_example :: dataframe where
  "age_edge_example =
     \<lparr>columns = [''Age''], rows = [[(''Age'', Num 18)], [(''Age'', Num 150)]]\<rparr>"

definition arrival_example :: dataframe where
  "arrival_example =
     \<lparr>columns = [''Arrival Time''],
      rows = [[(''Arrival Time'', Str ''2019-04-01 04:15:00'')],
              [(''Arrival Time'', Str ''2019-04-01 07:59:59'')],
              [(''Arrival Time'', Str ''2019-04-01 00:00:00'')],
              [(''Arrival Time'', Str ''2019-04-01 23:30:00'')],
              [(''Arrival Time'', Str ''2019-04-01 08:00:00'')]]\<rparr>"

definition postcode_row :: "string \<Rightarrow> string \<Rightarrow> rat \<Rightarrow> row" where
  "postcode_row p l i =
     [(''Postcode'', Str p), (''Lower layer super output area'', Str l),
      (''Index of Multiple Deprivation'', Num i)]"

definition visit_row ::
  "string \<Rightarrow> string \<Rightarrow> string \<Rightarrow> string \<Rightarrow> string \<Rightarrow> rat \<Rightarrow> row" where
  "visit_row n p h t g a =
     [(''NHS number'', Str n), (''Postcode'', Str p), (''Hospital'', Str h),
      (''Arrival Time'', Str t), (''Gender'', Str g), (''Age'', Num a)]"

text \<open>
  A reference table of twelve postcodes in eleven small areas. Its decile edges are
  1, 2.1, 3.2, 4.3, 5.4, 6.5, 7.6, 8.7, 9.8, 10, 11, so index 3 is in decile 2 and index
  10 in decile 9.
\<close>

definition scenario_postcodes :: dataframe where
  "scenario_postcodes =
     \<lparr>columns = [''Postcode'', ''Lower layer super output area'',
                 ''Index of Multiple Deprivation''],
      rows = [postcode_row ''P1'' ''L1'' 1, postcode_row ''P2'' ''L2'' 2,
              postcode_row ''P3'' ''L3'' 3, postcode_row ''P4'' ''L4'' 4,
              postcode_row ''P5'' ''L5'' 5, postcode_row ''P6'' ''L6'' 6,
              postcode_row ''P7'' ''L7'' 7, postcode_row ''P8'' ''L8'' 8,
              postcode_row ''P9'' ''L9'' 9, postcode_row ''P10'' ''L10'' 10,
              postcode_row ''P11'' ''L11'' 11, postcode_row ''P12'' ''L10'' 10]\<rparr>"

definition scenario_visits :: dataframe where
  "scenario_visits =
     \<lparr>columns = [''NHS number'', ''Postcode'', ''Hospital'', ''Arrival Time'',
                 ''Gender'', ''Age''],
      rows = [visit_row ''111'' ''P3'' ''A'' ''2019-04-01 07:15:00'' ''Male'' 10,
              visit_row ''222'' ''P10'' ''B'' ''2019-04-02 00:05:00'' ''Female'' 30,
              visit_row ''333'' ''P12'' ''A'' ''2019-04-03 23:59:59'' ''Other'' 90]\<rparr>"

text \<open>A frame with none of the columns the stages read.\<close>

definition unrelated_example :: dataframe where
  "unrelated_example =
     \<lparr>columns = [''Treatment''],
      rows = [[(''Treatment'', Str ''Fracture'')], [(''Treatment'', Str ''Burn'')]]\<rparr>"



















section \<open>Properties of the series operations\<close>

lemma mask_filter:
  "map fst (filter snd (zip xs (map P xs))) = filter P xs"
  by (induction xs) auto

lemma cell_eq_Str: "cell r c = Str s \<longleftrightarrow> map_of r c = Some (Str s)"
  by (simp add: cell_def split: option.splits)

section \<open>Categorical filtering\<close>

text \<open>
  C7. On a frame that has the gender column, the filter returns the same columns and
  exactly the rows whose gender cell is the string \<open>Male\<close> or \<open>Female\<close>, in their order
  and with every cell as it was; a row with any other gender, or none, is not in the
  result.
\<close>

theorem remove_non_male_or_female_exact:
  assumes "''Gender'' \<in> set (columns df)"
  shows "remove_non_male_or_female df =
           Inr \<lparr>columns = columns df,
                rows = filter (\<lambda>r. map_of r ''Gender'' = Some (Str ''Male'')
                                \<or> map_of r ''Gender'' = Some (Str ''Female'')) (rows df)\<rparr>"
proof -
  let ?P = "\<lambda>r. cell r ''Gender'' \<in> set [Str ''Male'', Str ''Female'']"
  have "isin (map (\<lambda>r. cell r ''Gender'') (rows df)) [Str ''Male'', Str ''Female'']
          = map ?P (rows df)"
    by (simp add: isin_def)
  moreover have "filter ?P (rows df) =
      filter (\<lambda>r. map_of r ''Gender'' = Some (Str ''Male'')
                 \<or> map_of r ''Gender'' = Some (Str ''Female'')) (rows df)"
    by (rule filter_cong) (auto simp: cell_eq_Str)
  ultimately show ?thesis
    using assms
    by (simp add: remove_non_male_or_female_def getitem_def getitem_mask_def mask_filter)
qed

theorem remove_non_male_or_female_exact_witness:
  "''Gender'' \<in> set (columns gender_example) \<and>
   remove_non_male_or_female gender_example =
     Inr \<lparr>columns = [''Gender'', ''Age''],
          rows = [[(''Gender'', Str ''Male''), (''Age'', Num 10)],
                  [(''Gender'', Str ''Female''), (''Age'', Num 90)]]\<rparr>"
  using remove_non_male_or_female_exact [of gender_example]
  by (simp add: gender_example_def)

lemma to_numeric_numval:
  "list_all (\<lambda>v. case v of Str s \<Rightarrow> False | _ \<Rightarrow> True) vs \<Longrightarrow>
   to_numeric vs = Inr (map numval vs)"
  by (induction vs rule: to_numeric.induct) (auto simp: numval_def)

lemma to_numeric_column:
  "numeric_column df c \<Longrightarrow>
   to_numeric (map (\<lambda>r. cell r c) (rows df)) = Inr (map (\<lambda>r. numval (cell r c)) (rows df))"
  using to_numeric_numval [of "map (\<lambda>r. cell r c) (rows df)"]
  by (simp add: numeric_column_def list_all_iff comp_def)

lemma map_zip_same:
  "map (\<lambda>(r, v). h r v) (zip xs (map f xs)) = map (\<lambda>r. h r (f r)) xs"
  by (induction xs) auto

lemma cut_labels:
  assumes "to_numeric x = Inr xs" "sorted bins" "distinct bins" "length ls = length bins - 1"
  shows "cut x bins (Some ls) =
           Inr (map (\<lambda>v. case bin_id bins v of None \<Rightarrow> NaN
                          | Some k \<Rightarrow> Str (ls ! (k - 1))) xs)"
  using assms by (simp add: cut_def bins_to_cuts_def comp_def del: One_nat_def)

section \<open>Age bracketing\<close>

lemma add_age_brackets_eq:
  assumes "''Age'' \<in> set (columns df)" "numeric_column df ''Age''"
  shows "add_age_brackets df =
     Inr \<lparr>columns = removeAll ''Age''
              (if ''Age bracket'' \<in> set (columns df) then columns df
               else columns df @ [''Age bracket'']),
          rows = map (\<lambda>r. AList.delete ''Age''
                         (AList.update ''Age bracket'' (age_bracket (cell r ''Age'')) r))
                     (rows df)\<rparr>"
proof -
  have c: "cut (map (\<lambda>r. cell r ''Age'') (rows df)) age_bins (Some age_labels) =
     Inr (map (\<lambda>r. age_bracket (cell r ''Age'')) (rows df))"
    using cut_labels [OF to_numeric_column [OF assms(2)], of age_bins age_labels]
    by (simp add: age_bins_def age_labels_def age_bracket_def comp_def)
  show ?thesis
    using assms(1)
    by (simp add: add_age_brackets_def getitem_def c setitem_def drop_column_def
        map_zip_same comp_def)
qed

lemma age_bracket_out_of_range: "a < 0 \<or> 150 < a \<Longrightarrow> age_bracket (Num a) = NaN"
  by (auto simp: age_bracket_def numval_def bin_id_def searchsorted_left_def age_bins_def)

lemma age_bracket_inside:
  "a = 0 \<or> 0 < a \<and> a < 18 \<Longrightarrow> age_bracket (Num a) = Str ''0-17''"
  "18 < a \<and> a < 25 \<Longrightarrow> age_bracket (Num a) = Str ''18-24''"
  "25 < a \<and> a < 45 \<Longrightarrow> age_bracket (Num a) = Str ''25-44''"
  "45 < a \<and> a < 65 \<Longrightarrow> age_bracket (Num a) = Str ''45-64''"
  "65 < a \<and> a < 85 \<Longrightarrow> age_bracket (Num a) = Str ''65-84''"
  "85 < a \<and> a \<le> 150 \<Longrightarrow> age_bracket (Num a) = Str ''85-''"
  by (auto simp: age_bracket_def numval_def bin_id_def searchsorted_left_def age_bins_def
      age_labels_def)

text \<open>
  C10. On a frame whose age column is numeric, the stage raises nothing: it returns a
  frame without the age column and with the bracket column, row for row. Every other
  cell of a row is kept, and a row whose age is below 0 or above 150 gets the missing
  value as its bracket.
\<close>

theorem add_age_brackets_out_of_range:
  assumes "''Age'' \<in> set (columns df)" and "numeric_column df ''Age''"
  shows "\<exists>out. add_age_brackets df = Inr out
           \<and> ''Age'' \<notin> set (columns out)
           \<and> ''Age bracket'' \<in> set (columns out)
           \<and> length (rows out) = length (rows df)
           \<and> (\<forall>i < length (rows df).
                 map_of (rows out ! i) ''Age'' = None
               \<and> (\<forall>c. c \<noteq> ''Age'' \<and> c \<noteq> ''Age bracket'' \<longrightarrow>
                       map_of (rows out ! i) c = map_of (rows df ! i) c)
               \<and> (\<forall>a. cell (rows df ! i) ''Age'' = Num a \<and> (a < 0 \<or> 150 < a) \<longrightarrow>
                       map_of (rows out ! i) ''Age bracket'' = Some NaN))"
  using assms
  by (auto simp: add_age_brackets_eq delete_conv' update_conv' age_bracket_out_of_range)

theorem add_age_brackets_out_of_range_witness:
  "''Age'' \<in> set (columns age_example) \<and> numeric_column age_example ''Age''
   \<and> add_age_brackets age_example =
       Inr \<lparr>columns = [''Gender'', ''Age bracket''],
            rows = [[(''Gender'', Str ''Male''), (''Age bracket'', Str ''0-17'')],
                    [(''Gender'', Str ''Female''), (''Age bracket'', NaN)],
                    [(''Gender'', Str ''Male''), (''Age bracket'', Str ''85-'')],
                    [(''Gender'', Str ''Male''), (''Age bracket'', Str ''0-17'')],
                    [(''Gender'', Str ''Male''), (''Age bracket'', NaN)]]\<rparr>"
  using add_age_brackets_out_of_range [of age_example]
  by (simp add: age_example_def numeric_column_def cell_def add_age_brackets_def getitem_def
      cut_def bins_to_cuts_def bin_id_def searchsorted_left_def age_bins_def age_labels_def
      setitem_def drop_column_def AList.delete_eq)

text \<open>
  C3, as the program has it at the ages the claim names: age 18 is given the bracket
  \<open>0-17\<close>, not \<open>18-24\<close>, and age 150 the bracket the program spells \<open>85-\<close>, not \<open>85+\<close>.
\<close>

theorem add_age_brackets_at_18_and_150:
  "add_age_brackets age_edge_example =
     Inr \<lparr>columns = [''Age bracket''],
          rows = [[(''Age bracket'', Str ''0-17'')], [(''Age bracket'', Str ''85-'')]]\<rparr>"
  by code_simp

text \<open>
  C3, amended. On a frame whose age column is numeric, the stage drops the age column
  and brackets the ages by the edges 0, 18, 25, 45, 65, 85, 150: age 0 and every age
  strictly between 0 and 18 get \<open>0-17\<close>, an age strictly between two later edges gets
  the bracket of that name, and an age above 85 up to and including 150 gets the
  bracket spelled \<open>85-\<close>. Nothing is said of the ages 18, 25, 45, 65 and 85.
\<close>

theorem add_age_brackets_inside_edges:
  assumes "''Age'' \<in> set (columns df)" and "numeric_column df ''Age''"
  shows "\<exists>out. add_age_brackets df = Inr out
           \<and> ''Age'' \<notin> set (columns out)
           \<and> length (rows out) = length (rows df)
           \<and> (\<forall>i < length (rows df). \<forall>a. cell (rows df ! i) ''Age'' = Num a \<longrightarrow>
                 (a = 0 \<or> 0 < a \<and> a < 18 \<longrightarrow>
                    map_of (rows out ! i) ''Age bracket'' = Some (Str ''0-17''))
               \<and> (18 < a \<and> a < 25 \<longrightarrow>
                    map_of (rows out ! i) ''Age bracket'' = Some (Str ''18-24''))
               \<and> (25 < a \<and> a < 45 \<longrightarrow>
                    map_of (rows out ! i) ''Age bracket'' = Some (Str ''25-44''))
               \<and> (45 < a \<and> a < 65 \<longrightarrow>
                    map_of (rows out ! i) ''Age bracket'' = Some (Str ''45-64''))
               \<and> (65 < a \<and> a < 85 \<longrightarrow>
                    map_of (rows out ! i) ''Age bracket'' = Some (Str ''65-84''))
               \<and> (85 < a \<and> a \<le> 150 \<longrightarrow>
                    map_of (rows out ! i) ''Age bracket'' = Some (Str ''85-'')))"
  using assms
  by (simp add: add_age_brackets_eq delete_conv' update_conv' age_bracket_inside)

theorem add_age_brackets_inside_edges_witness:
  "''Age'' \<in> set (columns age_inside_example) \<and> numeric_column age_inside_example ''Age''
   \<and> add_age_brackets age_inside_example =
       Inr \<lparr>columns = [''Age bracket''],
            rows = [[(''Age bracket'', Str ''0-17'')], [(''Age bracket'', Str ''0-17'')],
                    [(''Age bracket'', Str ''18-24'')], [(''Age bracket'', Str ''25-44'')],
                    [(''Age bracket'', Str ''45-64'')], [(''Age bracket'', Str ''65-84'')],
                    [(''Age bracket'', Str ''85-'')], [(''Age bracket'', Str ''85-'')]]\<rparr>"
  using add_age_brackets_inside_edges [of age_inside_example]
  by (simp add: age_inside_example_def numeric_column_def cell_def add_age_brackets_def
      getitem_def cut_def bins_to_cuts_def bin_id_def searchsorted_left_def age_bins_def
      age_labels_def setitem_def drop_column_def AList.delete_eq)

section \<open>Arrival time and the whole run\<close>

text \<open>
  C4, as the program has it. On five arrivals at the hours 4, 7, 0, 23 and 8 the stage
  raises \<open>NameError\<close> at its \<^verbatim>\<open>return\<close>. The frame it had built by then has the date and
  the bracket and neither the time nor the hour column, with hour 4 in \<open>00-03\<close> and hour
  8 in \<open>04-07\<close>: the bins are closed on the right.
\<close>

theorem put_time_in_4_hour_bins_at_edges:
  "put_time_in_4_hour_bins arrival_example = Inl (NameError ''nhs_df'')
   \<and> put_time_in_4_hour_bins_body arrival_example =
       Inr \<lparr>columns = [''Arrival Date'', ''Arrival hour range''],
            rows = [[(''Arrival Date'', Str ''2019-04-01''), (''Arrival hour range'', Str ''00-03'')],
                    [(''Arrival Date'', Str ''2019-04-01''), (''Arrival hour range'', Str ''04-07'')],
                    [(''Arrival Date'', Str ''2019-04-01''), (''Arrival hour range'', Str ''00-03'')],
                    [(''Arrival Date'', Str ''2019-04-01''), (''Arrival hour range'', Str ''20-23'')],
                    [(''Arrival Date'', Str ''2019-04-01''), (''Arrival hour range'', Str ''04-07'')]]\<rparr>"
  by code_simp

text \<open>
  C2, as the program has it. On the three visits of the scenario, \<^verbatim>\<open>main\<close> writes no
  output: the run ends in the \<open>NameError\<close> of the arrival-time stage.
\<close>

theorem main_scenario_writes_nothing:
  "main scenario_visits scenario_postcodes rev = (None, NameError ''nhs_df'')"
  by code_simp

section \<open>Missing columns\<close>

text \<open>
  C8, as the program has it: a frame without the health-number column makes the first
  stage raise \<open>KeyError\<close>, which is not the \<open>SchemaError\<close> of the claim.
\<close>

theorem remove_nhs_numbers_missing_column:
  "remove_nhs_numbers unrelated_example = Inl (KeyError ''NHS number'')
   \<and> remove_nhs_numbers unrelated_example \<noteq> Inl (SchemaError ''NHS number'')"
  by code_simp

text \<open>
  C8, amended. With a reference table that has its three columns, every stage given a
  frame without the column it reads raises \<open>KeyError\<close> carrying the label of that
  column, and so returns no frame.
\<close>

theorem stage_missing_column:
  assumes "''Postcode'' \<in> set (columns postcodes_df)"
    and "''Lower layer super output area'' \<in> set (columns postcodes_df)"
    and "''Index of Multiple Deprivation'' \<in> set (columns postcodes_df)"
  shows "(''NHS number'' \<notin> set (columns df) \<longrightarrow>
            remove_nhs_numbers df = Inl (KeyError ''NHS number''))
       \<and> (''Postcode'' \<notin> set (columns df) \<longrightarrow>
            convert_postcodes_to_lsoa postcodes_df df = Inl (KeyError ''Postcode''))
       \<and> (''Lower layer super output area'' \<notin> set (columns df) \<longrightarrow>
            convert_lsoa_to_imd_decile postcodes_df df =
              Inl (KeyError ''Lower layer super output area''))
       \<and> (''Hospital'' \<notin> set (columns df) \<longrightarrow>
            replace_hospital_with_random_number shuffle df = Inl (KeyError ''Hospital''))
       \<and> (''Arrival Time'' \<notin> set (columns df) \<longrightarrow>
            put_time_in_4_hour_bins df = Inl (KeyError ''Arrival Time''))
       \<and> (''Gender'' \<notin> set (columns df) \<longrightarrow>
            remove_non_male_or_female df = Inl (KeyError ''Gender''))
       \<and> (''Age'' \<notin> set (columns df) \<longrightarrow>
            add_age_brackets df = Inl (KeyError ''Age''))"
proof -
  have 1: "''NHS number'' \<notin> set (columns df) \<longrightarrow>
            remove_nhs_numbers df = Inl (KeyError ''NHS number'')"
    by (simp add: remove_nhs_numbers_def drop_column_def)
  have 2: "''Postcode'' \<notin> set (columns df) \<longrightarrow>
            convert_postcodes_to_lsoa postcodes_df df = Inl (KeyError ''Postcode'')"
    using assms(1,2)
    by (simp add: convert_postcodes_to_lsoa_def getitem_list_def merge_def)
  have 3: "''Lower layer super output area'' \<notin> set (columns df) \<longrightarrow>
            convert_lsoa_to_imd_decile postcodes_df df =
              Inl (KeyError ''Lower layer super output area'')"
    using assms(2,3)
    by (simp add: convert_lsoa_to_imd_decile_def getitem_list_def merge_def
        drop_duplicates_def)
  have 4: "''Hospital'' \<notin> set (columns df) \<longrightarrow>
            replace_hospital_with_random_number shuffle df = Inl (KeyError ''Hospital'')"
    by (simp add: replace_hospital_with_random_number_def getitem_def)
  have 5: "''Arrival Time'' \<notin> set (columns df) \<longrightarrow>
            put_time_in_4_hour_bins df = Inl (KeyError ''Arrival Time'')"
    by (simp add: put_time_in_4_hour_bins_def put_time_in_4_hour_bins_body_def getitem_def)
  have 6: "''Gender'' \<notin> set (columns df) \<longrightarrow>
            remove_non_male_or_female df = Inl (KeyError ''Gender'')"
    by (simp add: remove_non_male_or_female_def getitem_def)
  have 7: "''Age'' \<notin> set (columns df) \<longrightarrow> add_age_brackets df = Inl (KeyError ''Age'')"
    by (simp add: add_age_brackets_def getitem_def)
  from 1 2 3 4 5 6 7 show ?thesis by blast
qed

theorem stage_missing_column_witness:
  "''Postcode'' \<in> set (columns scenario_postcodes)
   \<and> ''Lower layer super output area'' \<in> set (columns scenario_postcodes)
   \<and> ''Index of Multiple Deprivation'' \<in> set (columns scenario_postcodes)
   \<and> ''NHS number'' \<notin> set (columns unrelated_example)
   \<and> ''Postcode'' \<notin> set (columns unrelated_example)
   \<and> ''Lower layer super output area'' \<notin> set (columns unrelated_example)
   \<and> ''Hospital'' \<notin> set (columns unrelated_example)
   \<and> ''Arrival Time'' \<notin> set (columns unrelated_example)
   \<and> ''Gender'' \<notin> set (columns unrelated_example)
   \<and> ''Age'' \<notin> set (columns unrelated_example)
   \<and> remove_nhs_numbers unrelated_example = Inl (KeyError ''NHS number'')
   \<and> convert_postcodes_to_lsoa scenario_postcodes unrelated_example =
       Inl (KeyError ''Postcode'')
   \<and> convert_lsoa_to_imd_decile scenario_postcodes unrelated_example =
       Inl (KeyError ''Lower layer super output area'')
   \<and> replace_hospital_with_random_number rev unrelated_example = Inl (KeyError ''Hospital'')
   \<and> put_time_in_4_hour_bins unrelated_example = Inl (KeyError ''Arrival Time'')
   \<and> remove_non_male_or_female unrelated_example = Inl (KeyError ''Gender'')
   \<and> add_age_brackets unrelated_example = Inl (KeyError ''Age'')"
  using stage_missing_column [of scenario_postcodes unrelated_example rev]
  by (simp add: scenario_postcodes_def unrelated_example_def)

section \<open>Hospital identifiers\<close>









section \<open>Joins\<close>

lemma first_seen_set [simp]: "set (first_seen xs) = set xs"
  by (simp add: first_seen_def)

lemma first_seen_distinct [simp]: "distinct (first_seen xs)"
  by (simp add: first_seen_def)









section \<open>Row counts\<close>























section \<open>Columns that stay dropped\<close>

















section \<open>Deprivation deciles\<close>




















section \<open>The run as a whole\<close>

text \<open>
  Whatever the input, the arrival-time stage returns no frame, and so \<^verbatim>\<open>main\<close> never
  reaches \<^verbatim>\<open>to_csv\<close>.
\<close>

lemma put_time_in_4_hour_bins_never_returns:
  "put_time_in_4_hour_bins df \<noteq> Inr out"
  by (simp add: put_time_in_4_hour_bins_def split: sum.splits)

lemma main_never_writes:
  "fst (main nhs_ae_data postcodes_london shuffle) = None"
  by (simp add: main_def put_time_in_4_hour_bins_never_returns split: sum.splits)

end
